theory Spec2Isabelle
  imports Main "HOL-Library.AList"
begin

section \<open>The OpenClaw service worker (\<^verbatim>\<open>src/sw.js\<close>)\<close>

text \<open>
  The worker is event driven: \<^verbatim>\<open>install\<close>, \<^verbatim>\<open>activate\<close>, \<^verbatim>\<open>fetch\<close> and
  \<^verbatim>\<open>message\<close> handlers, and three caching strategies. Each handler is embedded as a
  function from the worker's state to its new state, run to completion (every promise it
  started has settled). The browser's Cache Storage and the network are the environment:
  the store is a list of named caches in creation order, each a list of entries keyed by
  the request URL; the network is a function from a URL to either a rejection or a
  response. A rejected promise is a value \<open>Inl e\<close>.
\<close>

subsection \<open>Strings\<close>

fun startsWith :: "string \<Rightarrow> string \<Rightarrow> bool" where
  "startsWith s [] = True"
| "startsWith [] (c # cs) = False"
| "startsWith (x # xs) (c # cs) = (x = c \<and> startsWith xs cs)"



text \<open>The fields of a comma-separated header value, and a field without the blanks around it.\<close>

fun split_commas :: "string \<Rightarrow> string list" where
  "split_commas [] = [[]]"
| "split_commas (c # cs) =
     (if c = CHR '','' then [] # split_commas cs
      else (case split_commas cs of
              [] \<Rightarrow> [[c]]
            | field # fields \<Rightarrow> (c # field) # fields))"

definition blank :: "char \<Rightarrow> bool" where
  "blank c = (c = CHR '' '' \<or> c = CHR 0x09)"

definition trim :: "string \<Rightarrow> string" where
  "trim s = rev (dropWhile blank (rev (dropWhile blank s)))"

text \<open>Lines joined by a line feed between each two.\<close>

fun join_lines :: "string list \<Rightarrow> string" where
  "join_lines [] = []"
| "join_lines [l] = l"
| "join_lines (l # ls) = l @ CHR 0x0A # join_lines ls"

subsection \<open>Responses, requests, the network\<close>

record response =
  status :: nat
  headers :: "(string \<times> string) list"
  body :: string

text \<open>\<^verbatim>\<open>response.ok\<close>: the status is in the range 200 to 299.\<close>

definition ok :: "response \<Rightarrow> bool" where
  "ok r = (200 \<le> status r \<and> status r \<le> 299)"

text \<open>
  A request as the fetch handler reads it: \<^verbatim>\<open>request.url\<close>, the host name and the path
  of \<^verbatim>\<open>new URL(request.url)\<close>, and \<^verbatim>\<open>request.headers.get("accept")\<close>
  (\<open>None\<close> when the header is absent); and its method, which the Cache API looks at.
\<close>

record request =
  req_method :: string
  url :: string
  hostname :: string
  pathname :: string
  accept :: "string option"

datatype error = NetworkError | TypeError | InvalidStateError

type_synonym network = "string \<Rightarrow> error + response"

subsection \<open>The worker's state\<close>

type_synonym cache = "(string \<times> response) list"

text \<open>
  \<open>caches\<close> is the Cache Storage. The other fields record the effects the handlers have
  on the world outside it: the URLs fetched from the network, the entries put into a
  cache, the names passed to \<^verbatim>\<open>caches.delete\<close>, the URLs reported by
  \<^verbatim>\<open>console.warn\<close>, the rejections nobody handled, and whether
  \<^verbatim>\<open>self.skipWaiting()\<close> and \<^verbatim>\<open>self.clients.claim()\<close> have been called.
  \<open>origin\<close> is the origin of the worker's own location, against which a URL given as a
  string is resolved.
\<close>

record worker =
  origin :: string
  caches :: "(string \<times> cache) list"
  fetched :: "string list"
  written :: "(string \<times> string \<times> response) list"
  deleted :: "string list"
  warned :: "string list"
  unhandled :: "error list"
  skipWaiting :: bool
  claimed :: bool

definition CACHE_NAME :: string where
  "CACHE_NAME = ''openclaw-v2''"

definition RUNTIME_CACHE :: string where
  "RUNTIME_CACHE = ''openclaw-runtime-v2''"

definition PRECACHE_URLS :: "string list" where
  "PRECACHE_URLS =
    [''/'',
     ''/index.html'',
     ''/static/js/main.chunk.js'',
     ''/static/js/bundle.js'',
     ''/manifest.json'',
     ''https://fonts.googleapis.com/css2?family=Space+Mono:ital,wght@0,400;0,700;1,400&family=Syne:wght@400;600;700;800&display=swap'']"

subsection \<open>The platform: URL resolution, fetch and the Cache API\<close>

text \<open>
  The key of a request made from a string: a path starting with a slash is resolved
  against the worker's origin, an absolute URL is itself. (The URLs of the source are of
  these two forms.)
\<close>

definition absolute :: "worker \<Rightarrow> string \<Rightarrow> string" where
  "absolute w u = (if startsWith u ''/'' then origin w @ u else u)"

text \<open>
  \<^verbatim>\<open>fetch\<close> rejects on a network error and resolves with the response otherwise,
  whatever its status.
\<close>

definition fetch :: "network \<Rightarrow> string \<Rightarrow> worker \<Rightarrow> (error + response) \<times> worker" where
  "fetch net u w = (net u, w\<lparr>fetched := fetched w @ [u]\<rparr>)"

text \<open>\<^verbatim>\<open>caches.open(name)\<close> creates the cache when there is none of that name.\<close>

definition caches_open :: "string \<Rightarrow> worker \<Rightarrow> worker" where
  "caches_open name w =
     (case map_of (caches w) name of
        Some c \<Rightarrow> w
      | None \<Rightarrow> w\<lparr>caches := caches w @ [(name, [])]\<rparr>)"

text \<open>\<^verbatim>\<open>cache.match(request)\<close> on the cache of one name.\<close>

definition cache_match :: "string \<Rightarrow> string \<Rightarrow> worker \<Rightarrow> response option" where
  "cache_match name key w =
     (case map_of (caches w) name of None \<Rightarrow> None | Some c \<Rightarrow> map_of c key)"

text \<open>\<^verbatim>\<open>caches.match(request)\<close> looks through every cache, in creation order.\<close>

fun match_all :: "(string \<times> cache) list \<Rightarrow> string \<Rightarrow> response option" where
  "match_all [] key = None"
| "match_all ((name, c) # cs) key =
     (case map_of c key of Some r \<Rightarrow> Some r | None \<Rightarrow> match_all cs key)"

definition caches_match :: "string \<Rightarrow> worker \<Rightarrow> response option" where
  "caches_match key w = match_all (caches w) key"

text \<open>
  Writing an entry into the cache of one name replaces the entry of that key or adds one.
\<close>

definition store_entry :: "string \<Rightarrow> string \<Rightarrow> response \<Rightarrow> worker \<Rightarrow> worker" where
  "store_entry name key r w =
     w\<lparr>caches := AList.map_entry name (AList.update key r) (caches w),
       written := written w @ [(name, key, r)]\<rparr>"

text \<open>
  \<^verbatim>\<open>cache.put(request, response)\<close> does not take everything. Its promise rejects with a
  \<^verbatim>\<open>TypeError\<close>, and nothing is written, when the request's method is not
  \<^verbatim>\<open>GET\<close>, when the response has status 206, or when a field of the response's
  \<^verbatim>\<open>Vary\<close> header is \<^verbatim>\<open>*\<close>. (It also rejects a URL whose scheme is not http or
  https; the fetch handler lets no such request through, line 59, and the URLs given as
  strings are resolved against the worker's origin.)
\<close>

definition vary_star :: "response \<Rightarrow> bool" where
  "vary_star r =
     (case map_of (headers r) ''vary'' of
        None \<Rightarrow> False
      | Some v \<Rightarrow> list_ex (\<lambda>field. trim field = ''*'') (split_commas v))"

definition put_accepts :: "string \<Rightarrow> response \<Rightarrow> bool" where
  "put_accepts m r = (m = ''GET'' \<and> status r \<noteq> 206 \<and> \<not> vary_star r)"

definition cache_put :: "string \<Rightarrow> string \<Rightarrow> string \<Rightarrow> response \<Rightarrow> worker \<Rightarrow> (error + unit) \<times> worker" where
  "cache_put name m key r w =
     (if put_accepts m r then (Inr (), store_entry name key r w) else (Inl TypeError, w))"

text \<open>
  The source calls \<^verbatim>\<open>cache.put(request, response.clone())\<close> in three places (lines 92,
  105 and 123) and neither awaits the promise nor catches its rejection: a rejected put
  is an unhandled rejection, and the function goes on as if nothing had happened.
\<close>

definition put_unawaited :: "string \<Rightarrow> request \<Rightarrow> response \<Rightarrow> worker \<Rightarrow> worker" where
  "put_unawaited name request r w =
     (case cache_put name (req_method request) (url request) r w of
        (Inl e, w1) \<Rightarrow> w1\<lparr>unhandled := unhandled w1 @ [e]\<rparr>
      | (Inr done, w1) \<Rightarrow> w1)"

definition caches_delete :: "string \<Rightarrow> worker \<Rightarrow> worker" where
  "caches_delete name w =
     w\<lparr>caches := AList.delete name (caches w), deleted := deleted w @ [name]\<rparr>"

text \<open>
  \<^verbatim>\<open>cache.add(url)\<close> makes a \<^verbatim>\<open>GET\<close> request of the URL, fetches it, rejects when
  the response is not ok, and puts the response otherwise. It rejects, storing nothing,
  when the fetch rejects, when the response is not ok, and when the put rejects.
\<close>

definition cache_add :: "network \<Rightarrow> string \<Rightarrow> string \<Rightarrow> worker \<Rightarrow> (error + unit) \<times> worker" where
  "cache_add net name u w =
     (case fetch net (absolute w u) w of
        (Inl e, w1) \<Rightarrow> (Inl e, w1)
      | (Inr resp, w1) \<Rightarrow>
          if ok resp then cache_put name ''GET'' (absolute w u) resp w1
          else (Inl TypeError, w1))"

text \<open>
  \<^verbatim>\<open>cache.addAll(urls)\<close> fetches every URL and stores the responses only when all of
  them arrived, are ok, and are responses a put takes; otherwise it rejects and stores
  nothing. The responses are stored as one batch, which the Cache API also rejects as a
  whole when two of its requests have the same URL.
\<close>

fun fetch_all :: "network \<Rightarrow> string list \<Rightarrow> worker \<Rightarrow> (error + response) list \<times> worker" where
  "fetch_all net [] w = ([], w)"
| "fetch_all net (u # us) w =
     (case fetch net u w of
        (r, w1) \<Rightarrow> (case fetch_all net us w1 of (rs, w2) \<Rightarrow> (r # rs, w2)))"

fun all_ok :: "(error + response) list \<Rightarrow> response list option" where
  "all_ok [] = Some []"
| "all_ok (Inl e # rs) = None"
| "all_ok (Inr resp # rs) =
     (if ok resp \<and> put_accepts ''GET'' resp
      then (case all_ok rs of None \<Rightarrow> None | Some resps \<Rightarrow> Some (resp # resps))
      else None)"

fun put_all :: "string \<Rightarrow> (string \<times> response) list \<Rightarrow> worker \<Rightarrow> worker" where
  "put_all name [] w = w"
| "put_all name ((key, resp) # rest) w = put_all name rest (store_entry name key resp w)"

definition cache_addAll :: "network \<Rightarrow> string \<Rightarrow> string list \<Rightarrow> worker \<Rightarrow> (error + unit) \<times> worker" where
  "cache_addAll net name us w =
     (let keys = map (absolute w) us in
      case fetch_all net keys w of
        (results, w1) \<Rightarrow>
          (case all_ok results of
             None \<Rightarrow> (Inl TypeError, w1)
           | Some resps \<Rightarrow>
               if distinct keys then (Inr (), put_all name (zip keys resps) w1)
               else (Inl InvalidStateError, w1)))"

subsection \<open>Install\<close>

text \<open>
  One element of the array given to \<^verbatim>\<open>Promise.allSettled\<close>:
  \<^verbatim>\<open>cache.add(url).catch(e => console.warn(...))\<close>.
\<close>

definition add_or_warn :: "network \<Rightarrow> string \<Rightarrow> worker \<Rightarrow> worker" where
  "add_or_warn net u w =
     (case cache_add net CACHE_NAME u w of
        (Inl e, w1) \<Rightarrow> w1\<lparr>warned := warned w1 @ [u]\<rparr>
      | (Inr done, w1) \<Rightarrow> w1)"

text \<open>The install handler, for any array \<open>manifest\<close> in the place of \<^verbatim>\<open>PRECACHE_URLS\<close>.\<close>

definition install_urls :: "network \<Rightarrow> string list \<Rightarrow> worker \<Rightarrow> worker" where
  "install_urls net manifest w =
     (fold (add_or_warn net) manifest (caches_open CACHE_NAME w))\<lparr>skipWaiting := True\<rparr>"

definition install :: "network \<Rightarrow> worker \<Rightarrow> worker" where
  "install net w = install_urls net PRECACHE_URLS w"

subsection \<open>Activate\<close>

definition old_caches :: "worker \<Rightarrow> string list" where
  "old_caches w =
     filter (\<lambda>name. name \<noteq> CACHE_NAME \<and> name \<noteq> RUNTIME_CACHE) (map fst (caches w))"

definition activate :: "worker \<Rightarrow> worker" where
  "activate w = (fold caches_delete (old_caches w) w)\<lparr>claimed := True\<rparr>"

subsection \<open>The offline page\<close>

text \<open>
  The template literal of \<^verbatim>\<open>offlinePage\<close>, line by line; the lines are joined by
  line feeds. The two characters outside ASCII are written as their UTF-8 bytes.
\<close>

definition offlinePage :: string where
  \<open>offlinePage = join_lines
     [''<!DOCTYPE html>'',
      ''<html>'',
      ''<head>'',
      ''  <meta charset="utf-8">'',
      ''  <meta name="viewport" content="width=device-width, initial-scale=1">'',
      ''  <title>OpenClaw AI '' @ [CHR 0xE2, CHR 0x80, CHR 0x94] @ '' Offline</title>'',
      ''  <style>'',
      ''    body { background: #080C10; color: #E6EDF3; font-family: sans-serif;'',
      ''           display: flex; align-items: center; justify-content: center;'',
      ''           height: 100vh; margin: 0; text-align: center; }'',
      ''    .icon { font-size: 64px; margin-bottom: 16px; }'',
      ''    h1 { font-size: 22px; margin: 0 0 8px; }'',
      ''    p { color: #7D8590; font-size: 14px; }'',
      ''  </style>'',
      ''</head>'',
      ''<body>'',
      ''  <div>'',
      ''    <div class="icon">'' @ [CHR 0xF0, CHR 0x9F, CHR 0xA6, CHR 0xBE] @ ''</div>'',
      ''    <h1>You're offline</h1>'',
      ''    <p>OpenClaw needs a connection to reach the AI.<br>Check your network and try again.</p>'',
      ''  </div>'',
      ''</body>'',
      ''</html>'']\<close>

subsection \<open>The caching strategies\<close>

text \<open>
  The three responses the worker makes itself. A body given as a string gets the content
  type \<^verbatim>\<open>text/plain;charset=UTF-8\<close> unless the headers say otherwise; the status is
  200 unless given.
\<close>

definition offline_503 :: response where
  "offline_503 =
     \<lparr>status = 503, headers = [(''content-type'', ''text/plain;charset=UTF-8'')],
      body = ''Offline''\<rparr>"

definition offline_document :: response where
  "offline_document =
     \<lparr>status = 200, headers = [(''content-type'', ''text/html'')], body = offlinePage\<rparr>"

definition empty_503 :: response where
  "empty_503 =
     \<lparr>status = 503, headers = [(''content-type'', ''text/plain;charset=UTF-8'')],
      body = ''''\<rparr>"

definition cacheFirst :: "network \<Rightarrow> request \<Rightarrow> string \<Rightarrow> worker \<Rightarrow> response \<times> worker" where
  "cacheFirst net request cacheName w =
     (case caches_match (url request) w of
        Some cached \<Rightarrow> (cached, w)
      | None \<Rightarrow>
          (case fetch net (url request) w of
             (Inr resp, w1) \<Rightarrow>
               (resp,
                if ok resp
                then put_unawaited cacheName request resp (caches_open cacheName w1)
                else w1)
           | (Inl e, w1) \<Rightarrow> (offline_503, w1)))"

definition networkFirst :: "network \<Rightarrow> request \<Rightarrow> string \<Rightarrow> worker \<Rightarrow> response \<times> worker" where
  "networkFirst net request cacheName w =
     (case fetch net (url request) w of
        (Inr resp, w1) \<Rightarrow>
          (resp,
           if ok resp
           then put_unawaited cacheName request resp (caches_open cacheName w1)
           else w1)
      | (Inl e, w1) \<Rightarrow>
          (case caches_match (url request) w1 of
             Some cached \<Rightarrow> (cached, w1)
           | None \<Rightarrow>
               (case caches_match (absolute w1 ''/'') w1 of
                  Some offlineFallback \<Rightarrow> (offlineFallback, w1)
                | None \<Rightarrow> (offline_document, w1))))"

text \<open>
  In \<^verbatim>\<open>staleWhileRevalidate\<close> the cache is opened and looked up first, the fetch is
  started in every case, and \<open>networkPromise\<close> resolves with the response, or with
  \<^verbatim>\<open>null\<close> (\<open>None\<close>) after a rejection.
\<close>

definition staleWhileRevalidate :: "network \<Rightarrow> request \<Rightarrow> string \<Rightarrow> worker \<Rightarrow> response \<times> worker" where
  "staleWhileRevalidate net request cacheName w =
     (let w0 = caches_open cacheName w;
          cached = cache_match cacheName (url request) w0;
          (networkPromise, w2) =
            (case fetch net (url request) w0 of
               (Inr resp, w1) \<Rightarrow>
                 (Some resp, if ok resp then put_unawaited cacheName request resp w1 else w1)
             | (Inl e, w1) \<Rightarrow> (None, w1))
      in (case cached of
            Some c \<Rightarrow> c
          | None \<Rightarrow> (case networkPromise of Some resp \<Rightarrow> resp | None \<Rightarrow> empty_503),
          w2))"

subsection \<open>The fetch handler\<close>



subsection \<open>The message handler\<close>

text \<open>\<^verbatim>\<open>event.data\<close>, when there is one: its \<^verbatim>\<open>type\<close> and its \<^verbatim>\<open>urls\<close>.\<close>

record message =
  mtype :: string
  urls :: "string list"

definition message_handler :: "network \<Rightarrow> message option \<Rightarrow> worker \<Rightarrow> worker" where
  "message_handler net data w =
     (case data of
        None \<Rightarrow> w
      | Some m \<Rightarrow>
          (let w1 = (if mtype m = ''SKIP_WAITING'' then w\<lparr>skipWaiting := True\<rparr> else w)
           in if mtype m = ''CACHE_URLS''
              then (case cache_addAll net RUNTIME_CACHE (urls m) (caches_open RUNTIME_CACHE w1) of
                      (Inl e, w2) \<Rightarrow> w2\<lparr>unhandled := unhandled w2 @ [e]\<rparr>
                    | (Inr done, w2) \<Rightarrow> w2)
              else w1))"

subsection \<open>Notions of the specification\<close>

text \<open>The entries put into a cache between the state \<open>w\<close> and a later state \<open>w'\<close>.\<close>

definition written_since :: "worker \<Rightarrow> worker \<Rightarrow> (string \<times> string \<times> response) list" where
  "written_since w w' = drop (length (written w)) (written w')"

text \<open>The fetch of a URL resolves with an ok response.\<close>

definition fetch_ok :: "network \<Rightarrow> string \<Rightarrow> bool" where
  "fetch_ok net key = (case net key of Inr resp \<Rightarrow> ok resp | Inl e \<Rightarrow> False)"

text \<open>
  \<^verbatim>\<open>cache.add\<close> of a URL succeeds: the fetch resolves with an ok response that a put
  takes.
\<close>

definition add_ok :: "network \<Rightarrow> string \<Rightarrow> bool" where
  "add_ok net key =
     (case net key of Inr resp \<Rightarrow> ok resp \<and> put_accepts ''GET'' resp | Inl e \<Rightarrow> False)"






text \<open>Every response held in a cache is ok.\<close>

definition stored_ok :: "worker \<Rightarrow> bool" where
  "stored_ok w = list_all (\<lambda>(name, c). list_all (\<lambda>(key, r). ok r) c) (caches w)"


subsection \<open>Example states, requests and networks\<close>

text \<open>A worker at the origin \<^verbatim>\<open>https://openclaw.app\<close> that has done nothing yet.\<close>

definition fresh_worker :: worker where
  "fresh_worker =
     \<lparr>origin = ''https://openclaw.app'', caches = [], fetched = [], written = [],
      deleted = [], warned = [], unhandled = [], skipWaiting = False, claimed = False\<rparr>"

text \<open>Responses of servers.\<close>

definition app_shell :: response where
  "app_shell =
     \<lparr>status = 200, headers = [(''content-type'', ''text/html'')],
      body = ''<!DOCTYPE html><div id=root></div>''\<rparr>"



definition not_found :: response where
  "not_found = \<lparr>status = 404, headers = [(''content-type'', ''text/plain'')], body = ''Not Found''\<rparr>"


text \<open>A part of a file, as a server sends it with status 206.\<close>

definition partial_content :: response where
  "partial_content =
     \<lparr>status = 206, headers = [(''content-type'', ''font/woff2'')], body = ''wOF2''\<rparr>"

text \<open>
  Networks: one that answers every URL with 404, one that is down, one that answers every
  URL with a font stylesheet, one on which only the worker's own origin can be reached,
  one whose server answers the root URL with JSON and nothing else, and one that answers
  every URL with a part of a file.
\<close>

definition net_partial :: network where
  "net_partial u = Inr partial_content"

definition net_404 :: network where
  "net_404 u = Inr not_found"



definition net_same_origin :: network where
  "net_same_origin u =
     (if startsWith u ''https://openclaw.app/'' then Inr app_shell else Inl NetworkError)"



definition page_request :: request where
  "page_request =
     \<lparr>req_method = ''GET'', url = ''https://openclaw.app/chat'', hostname = ''openclaw.app'',
      pathname = ''/chat'', accept = Some ''text/html,application/xhtml+xml''\<rparr>"


definition script_request :: request where
  "script_request =
     \<lparr>req_method = ''GET'', url = ''https://openclaw.app/static/js/bundle.js'', hostname = ''openclaw.app'',
      pathname = ''/static/js/bundle.js'', accept = Some ''*/*''\<rparr>"


definition page_cached :: worker where
  "page_cached = fresh_worker\<lparr>caches := [(CACHE_NAME, [(url page_request, app_shell)])]\<rparr>"



definition two_generations :: worker where
  "two_generations =
     fresh_worker\<lparr>caches :=
       [(''openclaw-v1'', [(''https://openclaw.app/'', app_shell)]),
        (''openclaw-runtime-v1'', []),
        (CACHE_NAME, [(''https://openclaw.app/'', app_shell)])]\<rparr>"

text \<open>Two messages of the host page that ask for URLs to be cached.\<close>

definition prime_message :: message where
  "prime_message =
     \<lparr>mtype = ''CACHE_URLS'', urls = [''/app.js'', ''https://fonts.googleapis.com/css2'']\<rparr>"

definition prime_own_message :: message where
  "prime_own_message = \<lparr>mtype = ''CACHE_URLS'', urls = [''/app.js'', ''/app.css'']\<rparr>"

section \<open>Properties\<close>

subsection \<open>The store\<close>

lemma cache_match_open [simp]:
  "cache_match name key (caches_open n w) = cache_match name key w"
  by (auto simp: cache_match_def caches_open_def map_add_def split: option.splits)

lemma open_exists: "\<exists>c. map_of (caches (caches_open name w)) name = Some c"
  by (auto simp: caches_open_def map_add_def split: option.splits)

lemma cache_match_store:
  "cache_match n k (store_entry name key r w) =
     (if n = name \<and> k = key \<and> map_of (caches w) name \<noteq> None then Some r
      else cache_match n k w)"
  by (auto simp: cache_match_def store_entry_def map_of_map_entry update_conv'
        split: option.splits)

lemma cache_match_store_open [simp]:
  "cache_match name key (store_entry name key r (caches_open name w)) = Some r"
  using open_exists [of name w] by (auto simp: cache_match_store)

lemma cache_match_unhandled [simp]:
  "cache_match name key (w\<lparr>unhandled := x\<rparr>) = cache_match name key w"
  by (simp add: cache_match_def)

text \<open>The un-awaited put, case by case.\<close>

lemma put_unawaited_eq:
  "put_unawaited name request r w =
     (if put_accepts (req_method request) r then store_entry name (url request) r w
      else w\<lparr>unhandled := unhandled w @ [TypeError]\<rparr>)"
  by (simp add: put_unawaited_def cache_put_def)

lemma absolute_open [simp]: "absolute (caches_open name w) = absolute w"
  by (rule ext) (simp add: absolute_def caches_open_def split: option.splits)

lemma unhandled_open [simp]: "unhandled (caches_open name w) = unhandled w"
  by (simp add: caches_open_def split: option.splits)

lemma warned_open [simp]: "warned (caches_open name w) = warned w"
  by (simp add: caches_open_def split: option.splits)

lemma origin_open [simp]: "origin (caches_open name w) = origin w"
  by (simp add: caches_open_def split: option.splits)

lemma fetched_open [simp]: "fetched (caches_open name w) = fetched w"
  by (simp add: caches_open_def split: option.splits)

lemma written_open [simp]: "written (caches_open name w) = written w"
  by (simp add: caches_open_def split: option.splits)

lemma caches_match_fetched [simp]:
  "caches_match key (w\<lparr>fetched := x\<rparr>) = caches_match key w"
  by (simp add: caches_match_def)

lemma cache_match_fetched [simp]:
  "cache_match name key (w\<lparr>fetched := x\<rparr>) = cache_match name key w"
  by (simp add: cache_match_def)

lemma absolute_fetched [simp]: "absolute (w\<lparr>fetched := x\<rparr>) u = absolute w u"
  by (simp add: absolute_def)

lemma written_since_same [simp]: "written w' = written w \<Longrightarrow> written_since w w' = []"
  by (simp add: written_since_def)

lemma written_since_store_open [simp]:
  "written_since w (store_entry name key r (caches_open n (w\<lparr>fetched := x\<rparr>))) =
     [(name, key, r)]"
  by (simp add: written_since_def store_entry_def)

lemma written_since_store_open' [simp]:
  "written_since w (store_entry name key r (caches_open n w\<lparr>fetched := x\<rparr>)) =
     [(name, key, r)]"
  by (simp add: written_since_def store_entry_def)

subsection \<open>Cache-first\<close>






subsection \<open>Network-first\<close>





text \<open>
  C10. When the fetch resolves with a response, network-first returns that response as it
  is, whatever its status and whatever the caches hold: the lookup in the caches and the
  offline fallback are reached only after a rejected fetch. When the response is not ok
  the state changes by the recorded fetch only, so nothing is written to a cache.
\<close>

theorem networkFirst_response_returned:
  "net (url request) = Inr resp \<Longrightarrow>
     fst (networkFirst net request cacheName w) = resp \<and>
     (\<not> ok resp \<longrightarrow>
        snd (networkFirst net request cacheName w) = w\<lparr>fetched := fetched w @ [url request]\<rparr>)"
  by (simp add: networkFirst_def fetch_def)

theorem networkFirst_response_returned_witness:
  "net_404 (url page_request) = Inr not_found \<and> \<not> ok not_found \<and>
   caches_match (url page_request) page_cached = Some app_shell \<and>
   networkFirst net_404 page_request CACHE_NAME page_cached =
     (not_found, page_cached\<lparr>fetched := [url page_request]\<rparr>)"
proof -
  have h: "net_404 (url page_request) = Inr not_found"
    by (simp add: net_404_def)
  have n: "\<not> ok not_found"
    by (simp add: ok_def not_found_def)
  have c: "caches_match (url page_request) page_cached = Some app_shell"
    by (simp add: caches_match_def page_cached_def fresh_worker_def)
  have f: "fetched page_cached = []"
    by (simp add: page_cached_def fresh_worker_def)
  from networkFirst_response_returned
         [where net = net_404 and request = page_request, OF h, of CACHE_NAME page_cached] n f
  have "networkFirst net_404 page_request CACHE_NAME page_cached =
          (not_found, page_cached\<lparr>fetched := [url page_request]\<rparr>)"
    by (simp add: prod_eq_iff)
  with h n c show ?thesis by simp
qed

subsection \<open>Stale-while-revalidate\<close>



subsection \<open>What the strategies write\<close>

lemma cacheFirst_written:
  "written_since w (snd (cacheFirst net request cacheName w)) =
     (case caches_match (url request) w of
        Some cached \<Rightarrow> []
      | None \<Rightarrow> (case net (url request) of
                   Inr resp \<Rightarrow>
                     if ok resp \<and> put_accepts (req_method request) resp
                     then [(cacheName, url request, resp)] else []
                 | Inl e \<Rightarrow> []))"
  by (simp add: cacheFirst_def fetch_def put_unawaited_eq split: option.splits sum.splits)

lemma networkFirst_written:
  "written_since w (snd (networkFirst net request cacheName w)) =
     (case net (url request) of
        Inr resp \<Rightarrow>
                     if ok resp \<and> put_accepts (req_method request) resp
                     then [(cacheName, url request, resp)] else []
      | Inl e \<Rightarrow> [])"
  by (simp add: networkFirst_def fetch_def put_unawaited_eq split: option.splits sum.splits)

lemma staleWhileRevalidate_written:
  "written_since w (snd (staleWhileRevalidate net request cacheName w)) =
     (case net (url request) of
        Inr resp \<Rightarrow>
                     if ok resp \<and> put_accepts (req_method request) resp
                     then [(cacheName, url request, resp)] else []
      | Inl e \<Rightarrow> [])"
  by (simp add: staleWhileRevalidate_def fetch_def Let_def put_unawaited_eq
        split: option.splits sum.splits)

lemma cacheFirst_not_ok_entries:
  "net (url request) = Inr resp \<Longrightarrow> \<not> ok resp \<Longrightarrow>
     cache_match name key (snd (cacheFirst net request cacheName w)) = cache_match name key w"
  by (simp add: cacheFirst_def fetch_def split: option.splits)

lemma networkFirst_not_ok_entries:
  "net (url request) = Inr resp \<Longrightarrow> \<not> ok resp \<Longrightarrow>
     cache_match name key (snd (networkFirst net request cacheName w)) = cache_match name key w"
  by (simp add: networkFirst_def fetch_def)

lemma staleWhileRevalidate_not_ok_entries:
  "net (url request) = Inr resp \<Longrightarrow> \<not> ok resp \<Longrightarrow>
     cache_match name key (snd (staleWhileRevalidate net request cacheName w)) =
       cache_match name key w"
  by (simp add: staleWhileRevalidate_def fetch_def Let_def)

text \<open>
  C4. Whatever the network and the caches, every entry that an execution of cache-first,
  network-first or stale-while-revalidate puts into a cache is an ok (2xx) response. When
  the network answers with a response that is not ok, the execution puts nothing, and
  every cache holds for every key what it held before.
\<close>

theorem store_write_only_ok:
  "list_all (\<lambda>(name, key, r). ok r)
     (written_since w (snd (cacheFirst net request cacheName w))) \<and>
   list_all (\<lambda>(name, key, r). ok r)
     (written_since w (snd (networkFirst net request cacheName w))) \<and>
   list_all (\<lambda>(name, key, r). ok r)
     (written_since w (snd (staleWhileRevalidate net request cacheName w))) \<and>
   (\<forall>resp. net (url request) = Inr resp \<and> \<not> ok resp \<longrightarrow>
      written_since w (snd (cacheFirst net request cacheName w)) = [] \<and>
      written_since w (snd (networkFirst net request cacheName w)) = [] \<and>
      written_since w (snd (staleWhileRevalidate net request cacheName w)) = [] \<and>
      (\<forall>name key.
         cache_match name key (snd (cacheFirst net request cacheName w)) =
           cache_match name key w \<and>
         cache_match name key (snd (networkFirst net request cacheName w)) =
           cache_match name key w \<and>
         cache_match name key (snd (staleWhileRevalidate net request cacheName w)) =
           cache_match name key w))"
  by (simp add: cacheFirst_written networkFirst_written staleWhileRevalidate_written
        cacheFirst_not_ok_entries networkFirst_not_ok_entries
        staleWhileRevalidate_not_ok_entries
        split: option.splits sum.splits)

theorem store_write_only_ok_witness:
  "net_404 (url script_request) = Inr not_found \<and> \<not> ok not_found \<and>
   written_since fresh_worker
     (snd (cacheFirst net_404 script_request RUNTIME_CACHE fresh_worker)) = [] \<and>
   written_since fresh_worker
     (snd (networkFirst net_404 script_request RUNTIME_CACHE fresh_worker)) = [] \<and>
   written_since fresh_worker
     (snd (staleWhileRevalidate net_404 script_request RUNTIME_CACHE fresh_worker)) = [] \<and>
   cache_match RUNTIME_CACHE (url script_request)
     (snd (staleWhileRevalidate net_404 script_request RUNTIME_CACHE fresh_worker)) = None"
proof -
  have h: "net_404 (url script_request) = Inr not_found"
    by (simp add: net_404_def)
  have n: "\<not> ok not_found"
    by (simp add: ok_def not_found_def)
  have c: "cache_match RUNTIME_CACHE (url script_request) fresh_worker = None"
    by (simp add: cache_match_def fresh_worker_def)
  from store_write_only_ok [of fresh_worker net_404 script_request RUNTIME_CACHE] h n c
  show ?thesis by simp
qed

subsection \<open>Activate\<close>

lemma caches_fold_delete:
  "caches (fold caches_delete names w) = filter (\<lambda>p. fst p \<notin> set names) (caches w)"
  by (induction names arbitrary: w)
     (auto simp: caches_delete_def AList.delete_eq intro: filter_cong)

lemma old_caches_activate: "old_caches (activate w) = []"
  by (auto simp: old_caches_def activate_def caches_fold_delete filter_empty_conv)

text \<open>
  C7. After one run of the activate handler no cache is left whose name is not one of the
  two current names, so a second run finds nothing to delete: it calls
  \<^verbatim>\<open>caches.delete\<close> for no name and leaves the state as the first run left it.
\<close>

theorem activate_idempotent:
  "old_caches (activate w) = [] \<and>
   deleted (activate (activate w)) = deleted (activate w) \<and>
   activate (activate w) = activate w"
proof -
  have "activate (activate w) = (activate w)\<lparr>claimed := True\<rparr>"
    by (subst activate_def) (simp add: old_caches_activate)
  moreover have "claimed (activate w) = True"
    by (simp add: activate_def)
  ultimately have "activate (activate w) = activate w"
    by simp
  then show ?thesis
    by (simp add: old_caches_activate)
qed

theorem activate_idempotent_witness:
  "old_caches two_generations = [''openclaw-v1'', ''openclaw-runtime-v1''] \<and>
   deleted (activate two_generations) = [''openclaw-v1'', ''openclaw-runtime-v1''] \<and>
   deleted (activate (activate two_generations)) = [''openclaw-v1'', ''openclaw-runtime-v1''] \<and>
   map fst (caches (activate (activate two_generations))) = [CACHE_NAME]"
proof -
  have o: "old_caches two_generations = [''openclaw-v1'', ''openclaw-runtime-v1'']"
    by (simp add: old_caches_def two_generations_def fresh_worker_def CACHE_NAME_def
          RUNTIME_CACHE_def)
  have d: "deleted (activate two_generations) = [''openclaw-v1'', ''openclaw-runtime-v1'']"
    unfolding activate_def o
    by (simp add: caches_delete_def two_generations_def fresh_worker_def)
  have c: "map fst (caches (activate two_generations)) = [CACHE_NAME]"
    unfolding activate_def o
    by (simp add: caches_delete_def two_generations_def fresh_worker_def CACHE_NAME_def)
  from activate_idempotent [of two_generations] o d c show ?thesis
    by simp
qed

subsection \<open>Install\<close>

lemma cache_match_skipWaiting [simp]:
  "cache_match name key (w\<lparr>skipWaiting := x\<rparr>) = cache_match name key w"
  by (simp add: cache_match_def)

lemma cache_match_warned [simp]:
  "cache_match name key (w\<lparr>warned := x\<rparr>) = cache_match name key w"
  by (simp add: cache_match_def)

lemma add_or_warn_origin [simp]: "origin (add_or_warn net u w) = origin w"
  by (simp add: add_or_warn_def cache_add_def fetch_def cache_put_def store_entry_def split: sum.splits)

lemma absolute_add_or_warn [simp]: "absolute (add_or_warn net u w) = absolute w"
  by (rule ext) (simp add: absolute_def)

lemma add_or_warn_fetched: "fetched (add_or_warn net u w) = fetched w @ [absolute w u]"
  by (simp add: add_or_warn_def cache_add_def fetch_def cache_put_def store_entry_def split: sum.splits)

lemma add_or_warn_unhandled [simp]: "unhandled (add_or_warn net u w) = unhandled w"
  by (simp add: add_or_warn_def cache_add_def fetch_def cache_put_def store_entry_def split: sum.splits)

lemma add_or_warn_warned:
  "warned (add_or_warn net u w) =
     warned w @ (if add_ok net (absolute w u) then [] else [u])"
  by (simp add: add_or_warn_def cache_add_def fetch_def cache_put_def store_entry_def add_ok_def
        split: sum.splits)

lemma add_or_warn_open:
  "map_of (caches w) CACHE_NAME \<noteq> None \<Longrightarrow>
     map_of (caches (add_or_warn net u w)) CACHE_NAME \<noteq> None"
  by (auto simp: add_or_warn_def cache_add_def fetch_def cache_put_def store_entry_def map_of_map_entry
        split: sum.splits)

lemma add_or_warn_match:
  "map_of (caches w) CACHE_NAME \<noteq> None \<Longrightarrow>
     cache_match CACHE_NAME k (add_or_warn net u w) =
       (if k = absolute w u \<and> add_ok net k then
          (case net k of Inr resp \<Rightarrow> Some resp | Inl e \<Rightarrow> None)
        else cache_match CACHE_NAME k w)"
  by (auto simp: add_or_warn_def cache_add_def fetch_def cache_put_def cache_match_store add_ok_def
        split: sum.splits)

lemma fold_add_or_warn_origin [simp]: "origin (fold (add_or_warn net) us w) = origin w"
  by (induction us arbitrary: w) simp_all

lemma fold_add_or_warn_unhandled [simp]:
  "unhandled (fold (add_or_warn net) us w) = unhandled w"
  by (induction us arbitrary: w) simp_all

lemma fold_add_or_warn_fetched:
  "fetched (fold (add_or_warn net) us w) = fetched w @ map (absolute w) us"
  by (induction us arbitrary: w) (simp_all add: add_or_warn_fetched)

lemma fold_add_or_warn_warned:
  "warned (fold (add_or_warn net) us w) =
     warned w @ filter (\<lambda>u. \<not> add_ok net (absolute w u)) us"
  by (induction us arbitrary: w) (simp_all add: add_or_warn_warned)

text \<open>
  What the cache holds after the whole array has been worked through: the response of the
  network for every key of the array whose fetch was ok, and what it held before for every
  other key. A later URL never takes away what an earlier one stored.
\<close>

lemma fold_add_or_warn_match:
  assumes "map_of (caches w) CACHE_NAME \<noteq> None"
  shows "cache_match CACHE_NAME k (fold (add_or_warn net) us w) =
       (if k \<in> absolute w ` set us \<and> add_ok net k then
          (case net k of Inr resp \<Rightarrow> Some resp | Inl e \<Rightarrow> None)
        else cache_match CACHE_NAME k w)"
  using assms
proof (induction us arbitrary: w)
  case Nil
  then show ?case by simp
next
  case (Cons u us)
  let ?w1 = "add_or_warn net u w"
  have o: "map_of (caches ?w1) CACHE_NAME \<noteq> None"
    using Cons.prems by (rule add_or_warn_open)
  have "cache_match CACHE_NAME k (fold (add_or_warn net) (u # us) w) =
          cache_match CACHE_NAME k (fold (add_or_warn net) us ?w1)"
    by simp
  also have "\<dots> =
       (if k \<in> absolute w ` set us \<and> add_ok net k then
          (case net k of Inr resp \<Rightarrow> Some resp | Inl e \<Rightarrow> None)
        else cache_match CACHE_NAME k ?w1)"
    using Cons.IH [OF o] by simp
  also have "\<dots> =
       (if k \<in> absolute w ` set (u # us) \<and> add_ok net k then
          (case net k of Inr resp \<Rightarrow> Some resp | Inl e \<Rightarrow> None)
        else cache_match CACHE_NAME k w)"
    unfolding add_or_warn_match [OF Cons.prems] by auto
  finally show ?case .
qed

text \<open>
  C8, as the code has it. For every array of URLs and every network, the install handler
  runs to its end: \<^verbatim>\<open>skipWaiting\<close> has been called and no rejection is left
  unhandled. Every URL of the array has been fetched, in order, whatever happened to the
  ones before it. A URL whose \<^verbatim>\<open>cache.add\<close> succeeded (the fetch resolved with an ok
  response that the cache takes: not a 206, no \<^verbatim>\<open>Vary: *\<close>) is in the precache
  afterwards, with the response the network gave. The other URLs are the ones reported by
  \<^verbatim>\<open>console.warn\<close>, and a key that none of the successful URLs names holds what it
  held before.
\<close>

theorem install_tolerates_failures:
  "skipWaiting (install_urls net us w) \<and>
   unhandled (install_urls net us w) = unhandled w \<and>
   fetched (install_urls net us w) = fetched w @ map (absolute w) us \<and>
   warned (install_urls net us w) =
     warned w @ filter (\<lambda>u. \<not> add_ok net (absolute w u)) us \<and>
   (\<forall>u \<in> set us. \<forall>resp.
      net (absolute w u) = Inr resp \<and> ok resp \<and> put_accepts ''GET'' resp \<longrightarrow>
      cache_match CACHE_NAME (absolute w u) (install_urls net us w) = Some resp) \<and>
   (\<forall>k. \<not> (k \<in> absolute w ` set us \<and> add_ok net k) \<longrightarrow>
      cache_match CACHE_NAME k (install_urls net us w) = cache_match CACHE_NAME k w)"
proof -
  have o: "map_of (caches (caches_open CACHE_NAME w)) CACHE_NAME \<noteq> None"
    using open_exists [of CACHE_NAME w] by auto
  have "cache_match CACHE_NAME (absolute w u) (install_urls net us w) = Some resp"
    if "u \<in> set us" "net (absolute w u) = Inr resp" "ok resp" "put_accepts ''GET'' resp"
    for u resp
    using that by (simp add: install_urls_def fold_add_or_warn_match [OF o] add_ok_def)
  moreover have "cache_match CACHE_NAME k (install_urls net us w) = cache_match CACHE_NAME k w"
    if "\<not> (k \<in> absolute w ` set us \<and> add_ok net k)" for k
    using that by (auto simp: install_urls_def fold_add_or_warn_match [OF o])
  ultimately show ?thesis
    by (simp add: install_urls_def fold_add_or_warn_fetched fold_add_or_warn_warned)
qed

text \<open>
  The source's own array on a network that reaches the worker's origin only: the font
  stylesheet of another origin fails and is reported, the five other URLs are stored.
\<close>

theorem install_tolerates_failures_witness:
  "skipWaiting (install net_same_origin fresh_worker) \<and>
   unhandled (install net_same_origin fresh_worker) = [] \<and>
   warned (install net_same_origin fresh_worker) = [last PRECACHE_URLS] \<and>
   cache_match CACHE_NAME ''https://openclaw.app/'' (install net_same_origin fresh_worker) =
     Some app_shell \<and>
   cache_match CACHE_NAME ''https://openclaw.app/manifest.json''
     (install net_same_origin fresh_worker) = Some app_shell"
proof -
  have a: "absolute fresh_worker ''/'' = ''https://openclaw.app/''"
    "absolute fresh_worker ''/manifest.json'' = ''https://openclaw.app/manifest.json''"
    by (simp_all add: absolute_def fresh_worker_def)
  have m: "''/'' \<in> set PRECACHE_URLS" "''/manifest.json'' \<in> set PRECACHE_URLS"
    by (simp_all add: PRECACHE_URLS_def)
  have n: "net_same_origin ''https://openclaw.app/'' = Inr app_shell"
    "net_same_origin ''https://openclaw.app/manifest.json'' = Inr app_shell"
    by (simp_all add: net_same_origin_def)
  have k: "ok app_shell" "put_accepts ''GET'' app_shell"
    by (simp_all add: ok_def put_accepts_def vary_star_def app_shell_def)
  have f: "filter (\<lambda>u. \<not> add_ok net_same_origin (absolute fresh_worker u)) PRECACHE_URLS =
             [last PRECACHE_URLS]"
    by (simp add: PRECACHE_URLS_def add_ok_def net_same_origin_def absolute_def
          fresh_worker_def k)
  have e: "unhandled fresh_worker = []" "warned fresh_worker = []"
    by (simp_all add: fresh_worker_def)
  from install_tolerates_failures [of net_same_origin PRECACHE_URLS fresh_worker]
  have "skipWaiting (install net_same_origin fresh_worker) \<and>
     unhandled (install net_same_origin fresh_worker) = [] \<and>
     warned (install net_same_origin fresh_worker) = [last PRECACHE_URLS] \<and>
     (\<forall>u \<in> set PRECACHE_URLS. \<forall>resp.
        net_same_origin (absolute fresh_worker u) = Inr resp \<and> ok resp \<and>
        put_accepts ''GET'' resp \<longrightarrow>
        cache_match CACHE_NAME (absolute fresh_worker u) (install net_same_origin fresh_worker) =
          Some resp)"
    unfolding install_def using f e by simp
  with a m n k show ?thesis
    by force
qed

text \<open>
  C8 as stated fails for a URL that is fetched with success and still not stored. The
  server answers the root URL with status 206: the fetch resolves with an ok response,
  \<^verbatim>\<open>cache.add\<close> rejects it, and after the install handler the precache does not hold
  the root URL, which the handler has reported instead.
\<close>

theorem install_partial_content_counterexample:
  "net_partial (absolute fresh_worker ''/'') = Inr partial_content \<and>
   ok partial_content \<and>
   fetch_ok net_partial (absolute fresh_worker ''/'') \<and>
   fetched (install_urls net_partial [''/''] fresh_worker) = [''https://openclaw.app/''] \<and>
   cache_match CACHE_NAME (absolute fresh_worker ''/'')
     (install_urls net_partial [''/''] fresh_worker) = None \<and>
   warned (install_urls net_partial [''/''] fresh_worker) = [''/''] \<and>
   skipWaiting (install_urls net_partial [''/''] fresh_worker)"
  by (simp add: net_partial_def partial_content_def ok_def fetch_ok_def install_urls_def
        add_or_warn_def cache_add_def cache_put_def put_accepts_def fetch_def absolute_def
        fresh_worker_def caches_open_def cache_match_def CACHE_NAME_def)

subsection \<open>The message handler\<close>

lemma fetch_all_eq: "fetch_all net keys w = (map net keys, w\<lparr>fetched := fetched w @ keys\<rparr>)"
  by (induction keys arbitrary: w) (simp_all add: fetch_def)

lemma all_ok_None_iff: "all_ok (map net keys) = None \<longleftrightarrow> (\<exists>k \<in> set keys. \<not> add_ok net k)"
  by (induction keys) (auto simp: add_ok_def split: sum.splits option.splits)

lemma all_ok_Some: "all_ok rs = Some resps \<Longrightarrow> rs = map Inr resps"
  by (induction rs arbitrary: resps rule: all_ok.induct)
     (auto split: if_splits option.splits)

lemma map_of_zip_net:
  "map net keys = map Inr resps \<Longrightarrow> k \<in> set keys \<Longrightarrow> net k = Inr r \<Longrightarrow>
     map_of (zip keys resps) k = Some r"
  by (induction keys arbitrary: resps) auto

lemma put_all_written:
  "written (put_all name kvs w) = written w @ map (\<lambda>(k, r). (name, k, r)) kvs"
  by (induction kvs arbitrary: w) (auto simp: store_entry_def)

lemma put_all_open:
  "map_of (caches w) name \<noteq> None \<Longrightarrow> map_of (caches (put_all name kvs w)) name \<noteq> None"
  by (induction kvs arbitrary: w) (auto simp: store_entry_def map_of_map_entry)

lemma put_all_match:
  "map_of (caches w) name \<noteq> None \<Longrightarrow> distinct (map fst kvs) \<Longrightarrow>
     cache_match name k (put_all name kvs w) =
       (case map_of kvs k of Some r \<Rightarrow> Some r | None \<Rightarrow> cache_match name k w)"
proof (induction kvs arbitrary: w)
  case Nil
  then show ?case by simp
next
  case (Cons kv kvs)
  obtain key resp where kv: "kv = (key, resp)" by (cases kv)
  have o: "map_of (caches (store_entry name key resp w)) name \<noteq> None"
    using Cons.prems(1) by (auto simp: store_entry_def map_of_map_entry)
  have d: "distinct (map fst kvs)" and n: "map_of kvs key = None"
    using Cons.prems(2) by (auto simp: kv map_of_eq_None_iff)
  show ?case
    using Cons.IH [OF o d] Cons.prems(1) n
    by (auto simp: kv cache_match_store split: option.splits)
qed

lemma put_all_fetched [simp]: "fetched (put_all name kvs w) = fetched w"
  by (induction kvs arbitrary: w) (auto simp: store_entry_def)

lemma put_all_unhandled [simp]: "unhandled (put_all name kvs w) = unhandled w"
  by (induction kvs arbitrary: w) (auto simp: store_entry_def)

lemma open_not_None: "map_of (caches (caches_open name w)) name \<noteq> None"
  using open_exists [of name w] by auto

text \<open>The handler on a \<^verbatim>\<open>CACHE_URLS\<close> message, with the platform's steps unfolded.\<close>

lemma message_handler_CACHE_URLS:
  assumes t: "mtype m = ''CACHE_URLS''"
  shows "message_handler net (Some m) w =
     (let keys = map (absolute w) (urls m);
          w1 = (caches_open RUNTIME_CACHE w)\<lparr>fetched := fetched w @ keys\<rparr>
      in case all_ok (map net keys) of
           None \<Rightarrow> w1\<lparr>unhandled := unhandled w @ [TypeError]\<rparr>
         | Some resps \<Rightarrow>
             if distinct keys then put_all RUNTIME_CACHE (zip keys resps) w1
             else w1\<lparr>unhandled := unhandled w @ [InvalidStateError]\<rparr>)"
  by (simp add: message_handler_def t cache_addAll_def fetch_all_eq Let_def
        split: option.splits)

text \<open>
  On a \<^verbatim>\<open>CACHE_URLS\<close> message every URL of the list is fetched, and the outcome is
  all or nothing. If the fetch of one of them rejects, is not ok, or gives a response the
  cache does not take, nothing at all is written: every cache holds what it held before,
  also for the URLs whose fetch was ok, and the rejection of \<^verbatim>\<open>addAll\<close> is left
  unhandled. If every URL can be added (and no URL is named twice), every URL is stored in
  the runtime cache with the response the network gave.
\<close>

theorem cache_urls_all_or_nothing:
  assumes t: "mtype m = ''CACHE_URLS''"
  shows
   "fetched (message_handler net (Some m) w) = fetched w @ map (absolute w) (urls m) \<and>
    ((\<exists>u \<in> set (urls m). \<not> add_ok net (absolute w u)) \<longrightarrow>
        written (message_handler net (Some m) w) = written w \<and>
        (\<forall>name key. cache_match name key (message_handler net (Some m) w) =
           cache_match name key w) \<and>
        unhandled (message_handler net (Some m) w) = unhandled w @ [TypeError]) \<and>
    ((\<forall>u \<in> set (urls m). add_ok net (absolute w u)) \<and>
     distinct (map (absolute w) (urls m)) \<longrightarrow>
        (\<forall>u \<in> set (urls m). \<forall>resp. net (absolute w u) = Inr resp \<longrightarrow>
           cache_match RUNTIME_CACHE (absolute w u) (message_handler net (Some m) w) =
             Some resp) \<and>
        unhandled (message_handler net (Some m) w) = unhandled w)"
proof -
  let ?keys = "map (absolute w) (urls m)"
  let ?w1 = "(caches_open RUNTIME_CACHE w)\<lparr>fetched := fetched w @ ?keys\<rparr>"
  let ?w' = "message_handler net (Some m) w"
  have f: "fetched ?w' = fetched w @ ?keys"
    by (simp add: message_handler_CACHE_URLS [OF t] Let_def split: option.splits)
  have bad: "written ?w' = written w \<and>
        (\<forall>name key. cache_match name key ?w' = cache_match name key w) \<and>
        unhandled ?w' = unhandled w @ [TypeError]"
    if "\<exists>u \<in> set (urls m). \<not> add_ok net (absolute w u)"
  proof -
    from that have "all_ok (map net ?keys) = None"
      by (subst all_ok_None_iff) auto
    then show ?thesis
      by (simp add: message_handler_CACHE_URLS [OF t] Let_def)
  qed
  have good: "(\<forall>u \<in> set (urls m). \<forall>resp. net (absolute w u) = Inr resp \<longrightarrow>
           cache_match RUNTIME_CACHE (absolute w u) ?w' = Some resp) \<and>
        unhandled ?w' = unhandled w"
    if a: "\<forall>u \<in> set (urls m). add_ok net (absolute w u)" and d: "distinct ?keys"
  proof -
    from a have "all_ok (map net ?keys) \<noteq> None"
      by (subst all_ok_None_iff) auto
    then obtain resps where r: "all_ok (map net ?keys) = Some resps"
      by auto
    then have z: "map net ?keys = map Inr resps"
      by (rule all_ok_Some)
    then have l: "length resps = length ?keys"
      by (metis length_map)
    have w': "?w' = put_all RUNTIME_CACHE (zip ?keys resps) ?w1"
      using r d by (simp add: message_handler_CACHE_URLS [OF t] Let_def)
    have o: "map_of (caches ?w1) RUNTIME_CACHE \<noteq> None"
      using open_not_None [of RUNTIME_CACHE w] by simp
    have dz: "distinct (map fst (zip ?keys resps))"
      using d l by simp
    have "cache_match RUNTIME_CACHE (absolute w u) ?w' = Some resp"
      if "u \<in> set (urls m)" "net (absolute w u) = Inr resp" for u resp
    proof -
      from that have "map_of (zip ?keys resps) (absolute w u) = Some resp"
        by (intro map_of_zip_net [OF z]) auto
      then show ?thesis
        unfolding w' by (simp add: put_all_match [OF o dz])
    qed
    then show ?thesis
      by (simp add: w')
  qed
  from f bad good show ?thesis by blast
qed

theorem cache_urls_all_or_nothing_witness:
  "mtype prime_message = ''CACHE_URLS'' \<and> mtype prime_own_message = ''CACHE_URLS'' \<and>
   written (message_handler net_same_origin (Some prime_message) fresh_worker) = [] \<and>
   unhandled (message_handler net_same_origin (Some prime_message) fresh_worker) = [TypeError] \<and>
   cache_match RUNTIME_CACHE ''https://openclaw.app/app.js''
     (message_handler net_same_origin (Some prime_own_message) fresh_worker) = Some app_shell \<and>
   cache_match RUNTIME_CACHE ''https://openclaw.app/app.css''
     (message_handler net_same_origin (Some prime_own_message) fresh_worker) = Some app_shell"
proof -
  have t: "mtype prime_message = ''CACHE_URLS''" "mtype prime_own_message = ''CACHE_URLS''"
    by (simp_all add: prime_message_def prime_own_message_def)
  have u: "urls prime_message = [''/app.js'', ''https://fonts.googleapis.com/css2'']"
    "urls prime_own_message = [''/app.js'', ''/app.css'']"
    by (simp_all add: prime_message_def prime_own_message_def)
  have a: "absolute fresh_worker ''/app.js'' = ''https://openclaw.app/app.js''"
    "absolute fresh_worker ''/app.css'' = ''https://openclaw.app/app.css''"
    "absolute fresh_worker ''https://fonts.googleapis.com/css2'' =
       ''https://fonts.googleapis.com/css2''"
    by (simp_all add: absolute_def fresh_worker_def)
  have n: "net_same_origin ''https://openclaw.app/app.js'' = Inr app_shell"
    "net_same_origin ''https://openclaw.app/app.css'' = Inr app_shell"
    "net_same_origin ''https://fonts.googleapis.com/css2'' = Inl NetworkError"
    by (simp_all add: net_same_origin_def)
  have k: "ok app_shell" "put_accepts ''GET'' app_shell"
    by (simp_all add: ok_def put_accepts_def vary_star_def app_shell_def)
  have e: "written fresh_worker = []" "unhandled fresh_worker = []"
    by (simp_all add: fresh_worker_def)
  from cache_urls_all_or_nothing [OF t(1), of net_same_origin fresh_worker]
  have bad: "written (message_handler net_same_origin (Some prime_message) fresh_worker) = [] \<and>
     unhandled (message_handler net_same_origin (Some prime_message) fresh_worker) = [TypeError]"
    by (simp add: u a n e add_ok_def)
  from cache_urls_all_or_nothing [OF t(2), of net_same_origin fresh_worker]
  have good: "cache_match RUNTIME_CACHE ''https://openclaw.app/app.js''
     (message_handler net_same_origin (Some prime_own_message) fresh_worker) = Some app_shell \<and>
   cache_match RUNTIME_CACHE ''https://openclaw.app/app.css''
     (message_handler net_same_origin (Some prime_own_message) fresh_worker) = Some app_shell"
    by (simp add: u a n k add_ok_def)
  from t bad good show ?thesis by simp
qed

text \<open>
  C3. The specification asks of the \<^verbatim>\<open>CACHE_URLS\<close> message what the install handler
  does: a URL that cannot be fetched must not keep the others from being stored. The code
  does not do it. Of two URLs, the first can be fetched and the second cannot: the message
  handler stores neither and writes nothing, where the install handler, on the same two
  URLs and the same network, stores the first.
\<close>

theorem cache_urls_one_failure:
  "fetch_ok net_same_origin (absolute fresh_worker ''/app.js'') \<and>
   \<not> fetch_ok net_same_origin (absolute fresh_worker ''https://fonts.googleapis.com/css2'') \<and>
   cache_match RUNTIME_CACHE (absolute fresh_worker ''/app.js'')
     (message_handler net_same_origin (Some prime_message) fresh_worker) = None \<and>
   written (message_handler net_same_origin (Some prime_message) fresh_worker) = [] \<and>
   cache_match CACHE_NAME (absolute fresh_worker ''/app.js'')
     (install_urls net_same_origin (urls prime_message) fresh_worker) = Some app_shell"
  by (simp add: fetch_ok_def net_same_origin_def absolute_def fresh_worker_def ok_def
        app_shell_def cache_match_def message_handler_def prime_message_def cache_addAll_def
        caches_open_def fetch_def Let_def install_urls_def add_or_warn_def cache_add_def
        cache_put_def store_entry_def put_accepts_def vary_star_def CACHE_NAME_def
        RUNTIME_CACHE_def)

subsection \<open>The offline page\<close>






subsection \<open>Every stored response is ok\<close>

lemma stored_ok_open [simp]: "stored_ok (caches_open name w) = stored_ok w"
  by (simp add: stored_ok_def caches_open_def split: option.splits)

lemma stored_ok_fetched [simp]: "stored_ok (w\<lparr>fetched := x\<rparr>) = stored_ok w"
  by (simp add: stored_ok_def)

lemma stored_ok_warned [simp]: "stored_ok (w\<lparr>warned := x\<rparr>) = stored_ok w"
  by (simp add: stored_ok_def)

lemma stored_ok_unhandled [simp]: "stored_ok (w\<lparr>unhandled := x\<rparr>) = stored_ok w"
  by (simp add: stored_ok_def)

lemma stored_ok_skipWaiting [simp]: "stored_ok (w\<lparr>skipWaiting := x\<rparr>) = stored_ok w"
  by (simp add: stored_ok_def)

lemma stored_ok_claimed [simp]: "stored_ok (w\<lparr>claimed := x\<rparr>) = stored_ok w"
  by (simp add: stored_ok_def)

lemma list_all_update: "P (k, v) \<Longrightarrow> list_all P al \<Longrightarrow> list_all P (AList.update k v al)"
  by (induction al) auto

lemma list_all_map_entry:
  "(\<And>v. P (k, v) \<Longrightarrow> P (k, f v)) \<Longrightarrow> list_all P al \<Longrightarrow> list_all P (AList.map_entry k f al)"
  by (induction al) auto

lemma stored_ok_store: "ok r \<Longrightarrow> stored_ok w \<Longrightarrow> stored_ok (store_entry name key r w)"
  by (auto simp: stored_ok_def store_entry_def intro!: list_all_map_entry list_all_update)

lemma stored_ok_cache_put:
  "ok r \<Longrightarrow> stored_ok w \<Longrightarrow> stored_ok (snd (cache_put name m key r w))"
  by (simp add: cache_put_def stored_ok_store)



















subsection \<open>The offline fallback for documents\<close>







end
